theory Spec2Isabelle
  imports Complex_Main "HOL-Library.Char_ord"
begin

section \<open>Split allocation: \<^verbatim>\<open>calculate_split_amounts\<close> in backend/db.py\<close>

text \<open>
  A participant is a Python dict. The function reads and writes five keys of it; every
  other key (the name, the phone number) is carried along unchanged. Each key is a field
  of type \<open>pyval option\<close>: \<open>None\<close> is a key that is absent from the dict,
  \<open>Some PyNone\<close> is a key that is present and holds Python's \<^verbatim>\<open>None\<close> (what
  \<^verbatim>\<open>model_dump()\<close> of \<^verbatim>\<open>SplitParticipant\<close> produces for an optional field the client
  left out), \<open>Some (PyNum x)\<close> is a key holding a number, \<open>x\<close> being the real number
  the Python \<^verbatim>\<open>int\<close> or \<^verbatim>\<open>float\<close> denotes.
\<close>

datatype pyval = PyNone | PyNum real

record participant =
  name :: string
  share_percentage :: "pyval option"
  share_ratio :: "pyval option"
  amount_paid :: "pyval option"
  share_amount :: "pyval option"
  amount_owed :: "pyval option"

text \<open>
  The arithmetic of the function is Python's, on binary floating-point numbers, and is
  not part of the repository. It is a parameter of the model: \<open>fsum\<close> is \<^verbatim>\<open>sum\<close> on a
  non-empty list of numbers, \<open>fdiv\<close>, \<open>fmul\<close> and \<open>fsub\<close> are \<^verbatim>\<open>/\<close>, \<^verbatim>\<open>*\<close> and \<^verbatim>\<open>-\<close>,
  \<open>fround2\<close> is \<^verbatim>\<open>round(x, 2)\<close>, and \<open>hundredth\<close> is the number the literal \<^verbatim>\<open>0.01\<close>
  denotes. Comparison and \<^verbatim>\<open>abs\<close> are exact on floats and are the real ones;
  infinities and NaN are not modelled. What is proved with a variable \<open>ar\<close> holds for
  every arithmetic, Python's included.
\<close>

record arith =
  fsum :: "real list \<Rightarrow> real"
  fdiv :: "real \<Rightarrow> real \<Rightarrow> real"
  fmul :: "real \<Rightarrow> real \<Rightarrow> real"
  fsub :: "real \<Rightarrow> real \<Rightarrow> real"
  fround2 :: "real \<Rightarrow> real"
  hundredth :: real

text \<open>
  The two \<^verbatim>\<open>ValueError\<close>s of the function carry a formatted message; the message is kept
  as the numbers it is formatted from.
\<close>

datatype message =
    Percentages_must_add_up real
  | Total_paid_must_equal real real

datatype error = ValueError message | TypeError | ZeroDivisionError

text \<open>\<^verbatim>\<open>d.get(key, default)\<close>: the default is used for an absent key only.\<close>

definition dict_get :: "pyval option \<Rightarrow> pyval \<Rightarrow> pyval" where
  "dict_get entry dflt = (case entry of None \<Rightarrow> dflt | Some v \<Rightarrow> v)"

text \<open>
  \<^verbatim>\<open>sum(...)\<close> of the values read from the participants: adding \<^verbatim>\<open>None\<close> raises
  \<^verbatim>\<open>TypeError\<close>, the sum of no value is 0, and the sum of numbers is the arithmetic's.
\<close>

fun the_num :: "pyval \<Rightarrow> real" where
  "the_num (PyNum x) = x"
| "the_num PyNone = 0"

definition py_sum :: "arith \<Rightarrow> pyval list \<Rightarrow> error + real" where
  "py_sum ar vs =
     (if PyNone \<in> set vs then Inl TypeError
      else if vs = [] then Inr 0
      else Inr (fsum ar (map the_num vs)))"

text \<open>
  A \<^verbatim>\<open>for participant in participants\<close> loop whose body updates the participant in place.
  The first element whose body raises stops the loop: the elements before it keep their
  updates, that element and the ones after it are as they were. The result is the list
  as the caller sees it afterwards, and the exception if one was raised.
\<close>

fun for_each ::
  "(participant \<Rightarrow> error + participant) \<Rightarrow> participant list \<Rightarrow> participant list \<times> error option"
where
  "for_each body [] = ([], None)"
| "for_each body (p # ps) =
     (case body p of
        Inl e \<Rightarrow> (p # ps, Some e)
      | Inr p' \<Rightarrow> (case for_each body ps of (ps', e) \<Rightarrow> (p' # ps', e)))"

text \<open>The loop bodies of the three branches (lines 395-398, 407-409, 415-418).\<close>

definition equal_body :: "arith \<Rightarrow> real \<Rightarrow> nat \<Rightarrow> participant \<Rightarrow> error + participant" where
  "equal_body ar share num_participants p =
     Inr (p\<lparr>share_amount := Some (PyNum (fround2 ar share)),
            share_percentage := Some (PyNum (fround2 ar (fdiv ar 100 (real num_participants)))),
            share_ratio := Some (PyNum 1)\<rparr>)"

definition percentage_body :: "arith \<Rightarrow> real \<Rightarrow> participant \<Rightarrow> error + participant" where
  "percentage_body ar total_amount p =
     (case dict_get (share_percentage p) (PyNum 0) of
        PyNone \<Rightarrow> Inl TypeError
      | PyNum percentage \<Rightarrow>
          Inr (p\<lparr>share_amount :=
                 Some (PyNum (fround2 ar (fmul ar (fdiv ar percentage 100) total_amount)))\<rparr>))"

definition ratio_body :: "arith \<Rightarrow> real \<Rightarrow> real \<Rightarrow> participant \<Rightarrow> error + participant" where
  "ratio_body ar total_amount total_ratio p =
     (case dict_get (share_ratio p) (PyNum 1) of
        PyNone \<Rightarrow> Inl TypeError
      | PyNum ratio \<Rightarrow>
          if total_ratio = 0 then Inl ZeroDivisionError
          else Inr (p\<lparr>share_percentage :=
                        Some (PyNum (fround2 ar (fmul ar (fdiv ar ratio total_ratio) 100))),
                      share_amount :=
                        Some (PyNum (fround2 ar (fmul ar (fdiv ar ratio total_ratio)
                                                   total_amount)))\<rparr>))"

text \<open>
  Lines 390-418: the \<^verbatim>\<open>if/elif/elif\<close> on the method. A method that is none of the three
  takes no branch and writes nothing.
\<close>

definition compute_shares ::
  "arith \<Rightarrow> real \<Rightarrow> participant list \<Rightarrow> string \<Rightarrow> participant list \<times> error option"
where
  "compute_shares ar total_amount participants split_method =
     (let num_participants = length participants in
      if split_method = ''equal'' then
        (if num_participants = 0 then (participants, Some ZeroDivisionError)
         else for_each (equal_body ar (fdiv ar total_amount (real num_participants))
                          num_participants)
                participants)
      else if split_method = ''percentage'' then
        (case py_sum ar (map (\<lambda>p. dict_get (share_percentage p) (PyNum 0)) participants) of
           Inl e \<Rightarrow> (participants, Some e)
         | Inr total_percentage \<Rightarrow>
             if \<bar>fsub ar total_percentage 100\<bar> > hundredth ar
             then (participants, Some (ValueError (Percentages_must_add_up total_percentage)))
             else for_each (percentage_body ar total_amount) participants)
      else if split_method = ''ratio'' then
        (case py_sum ar (map (\<lambda>p. dict_get (share_ratio p) (PyNum 1)) participants) of
           Inl e \<Rightarrow> (participants, Some e)
         | Inr total_ratio \<Rightarrow> for_each (ratio_body ar total_amount total_ratio) participants)
      else (participants, None))"

text \<open>Lines 420-429: the payment check and the settlement loop.\<close>

definition owed_body :: "arith \<Rightarrow> participant \<Rightarrow> error + participant" where
  "owed_body ar p =
     (case (dict_get (share_amount p) (PyNum 0), dict_get (amount_paid p) (PyNum 0)) of
        (PyNum share, PyNum paid) \<Rightarrow>
          Inr (p\<lparr>amount_owed := Some (PyNum (fround2 ar (fsub ar share paid)))\<rparr>)
      | _ \<Rightarrow> Inl TypeError)"

definition compute_owed ::
  "arith \<Rightarrow> real \<Rightarrow> participant list \<Rightarrow> participant list \<times> error option"
where
  "compute_owed ar total_amount participants =
     (case py_sum ar (map (\<lambda>p. dict_get (amount_paid p) (PyNum 0)) participants) of
        Inl e \<Rightarrow> (participants, Some e)
      | Inr total_paid \<Rightarrow>
          if \<bar>fsub ar total_paid total_amount\<bar> > hundredth ar
          then (participants, Some (ValueError (Total_paid_must_equal total_paid total_amount)))
          else for_each (owed_body ar) participants)"

text \<open>
  The whole function. The first component is the caller's list after the call, whether
  the call returned or raised; the second is the exception raised, if any. When there
  is none, the value returned is that same list.
\<close>

definition calculate_split_amounts ::
  "arith \<Rightarrow> real \<Rightarrow> participant list \<Rightarrow> string \<Rightarrow> participant list \<times> error option"
where
  "calculate_split_amounts ar total_amount participants split_method =
     (case compute_shares ar total_amount participants split_method of
        (ps, Some e) \<Rightarrow> (ps, Some e)
      | (ps, None) \<Rightarrow> compute_owed ar total_amount ps)"

text \<open>
  Reading a key as a number, with the default that \<^verbatim>\<open>get\<close> would use for an absent key;
  whether a key holds a number; and the exact sum of one key over a list, which is the
  sum the claims speak of (it is not a sum the program computes).
\<close>

definition num_or :: "real \<Rightarrow> pyval option \<Rightarrow> real" where
  "num_or d v = (case dict_get v (PyNum d) of PyNum x \<Rightarrow> x | PyNone \<Rightarrow> d)"

definition populated :: "pyval option \<Rightarrow> bool" where
  "populated v = (case v of Some (PyNum x) \<Rightarrow> True | _ \<Rightarrow> False)"

definition total_of :: "(participant \<Rightarrow> pyval option) \<Rightarrow> participant list \<Rightarrow> real" where
  "total_of key ps = sum_list (map (\<lambda>p. num_or 0 (key p)) ps)"

text \<open>
  The sum Python computes of one key over a list, with the default for an absent key.
\<close>

definition summed :: "arith \<Rightarrow> real \<Rightarrow> (participant \<Rightarrow> pyval option) \<Rightarrow> participant list \<Rightarrow> real" where
  "summed ar d key ps = (if ps = [] then 0 else fsum ar (map (\<lambda>p. num_or d (key p)) ps))"

text \<open>
  Two ways a participant reaches the function: a dict that holds only a name and,
  possibly, a payment; and the dict that \<^verbatim>\<open>model_dump()\<close> makes of a request's
  \<^verbatim>\<open>SplitParticipant\<close> (backend/models.py), where every declared field is a key,
  \<^verbatim>\<open>amount_paid\<close> and \<^verbatim>\<open>amount_owed\<close> default to 0.0 and an optional field left out is
  \<^verbatim>\<open>None\<close>.
\<close>

definition new_participant :: "string \<Rightarrow> pyval option \<Rightarrow> participant" where
  "new_participant n paid =
     \<lparr>name = n, share_percentage = None, share_ratio = None, amount_paid = paid,
      share_amount = None, amount_owed = None\<rparr>"

definition model_dump :: "string \<Rightarrow> pyval \<Rightarrow> pyval \<Rightarrow> real \<Rightarrow> participant" where
  "model_dump n percentage ratio paid =
     \<lparr>name = n, share_percentage = Some percentage, share_ratio = Some ratio,
      amount_paid = Some (PyNum paid), share_amount = None, amount_owed = Some (PyNum 0)\<rparr>"

text \<open>The values the three branches store, as functions of the participant before the call.\<close>

definition equal_written :: "arith \<Rightarrow> real \<Rightarrow> nat \<Rightarrow> participant \<Rightarrow> participant" where
  "equal_written ar total_amount n p =
     p\<lparr>share_amount := Some (PyNum (fround2 ar (fdiv ar total_amount (real n)))),
       share_percentage := Some (PyNum (fround2 ar (fdiv ar 100 (real n)))),
       share_ratio := Some (PyNum 1)\<rparr>"

definition percentage_written :: "arith \<Rightarrow> real \<Rightarrow> participant \<Rightarrow> participant" where
  "percentage_written ar total_amount p =
     p\<lparr>share_amount :=
         Some (PyNum (fround2 ar (fmul ar (fdiv ar (num_or 0 (share_percentage p)) 100)
                                    total_amount)))\<rparr>"

definition ratio_written :: "arith \<Rightarrow> real \<Rightarrow> real \<Rightarrow> participant \<Rightarrow> participant" where
  "ratio_written ar total_amount total_ratio p =
     p\<lparr>share_percentage :=
         Some (PyNum (fround2 ar (fmul ar (fdiv ar (num_or 1 (share_ratio p)) total_ratio) 100))),
       share_amount :=
         Some (PyNum (fround2 ar (fmul ar (fdiv ar (num_or 1 (share_ratio p)) total_ratio)
                                    total_amount)))\<rparr>"

definition owed_written :: "arith \<Rightarrow> participant \<Rightarrow> participant" where
  "owed_written ar p =
     p\<lparr>amount_owed :=
         Some (PyNum (fround2 ar (fsub ar (num_or 0 (share_amount p))
                                    (num_or 0 (amount_paid p)))))\<rparr>"

text \<open>
  One arithmetic, used for the examples: the one without rounding error. Every
  operation returns the exact result, and \<^verbatim>\<open>round(x, 2)\<close> is the nearest multiple of
  0.01 of the exact value, a tie going to the even neighbour. Binary floating point
  agrees with it where every intermediate result is a number it represents exactly.
\<close>

definition round_half_even :: "real \<Rightarrow> int" where
  "round_half_even x =
     (let f = \<lfloor>x\<rfloor>; d = x - of_int f
      in if d < 1 / 2 then f else if 1 / 2 < d then f + 1 else if even f then f else f + 1)"

definition round2 :: "real \<Rightarrow> real" where
  "round2 x = of_int (round_half_even (x * 100)) / 100"

definition exact_arith :: arith where
  "exact_arith =
     \<lparr>fsum = sum_list, fdiv = (\<lambda>a b. a / b), fmul = (\<lambda>a b. a * b), fsub = (\<lambda>a b. a - b),
      fround2 = round2, hundredth = 1 / 100\<rparr>"


definition three_way :: "participant list" where
  "three_way =
     [new_participant ''A'' (Some (PyNum 300)), new_participant ''B'' None,
      new_participant ''C'' None]"




definition three_unpaid :: "participant list" where
  "three_unpaid =
     [new_participant ''A'' None, new_participant ''B'' None, new_participant ''C'' None]"

definition halves_dumped :: "participant list" where
  "halves_dumped =
     [model_dump ''A'' (PyNum 50) PyNone 100, model_dump ''B'' (PyNum 50) PyNone 0]"

definition ratio_omitted :: "participant list" where
  "ratio_omitted =
     [model_dump ''A'' PyNone PyNone 100, model_dump ''B'' PyNone PyNone 0]"

definition halves_allocated :: "participant list" where
  "halves_allocated =
     [\<lparr>name = ''A'', share_percentage = Some (PyNum 50), share_ratio = Some PyNone,
       amount_paid = Some (PyNum 100), share_amount = Some (PyNum 50),
       amount_owed = Some (PyNum (- 50))\<rparr>,
      \<lparr>name = ''B'', share_percentage = Some (PyNum 50), share_ratio = Some PyNone,
       amount_paid = Some (PyNum 0), share_amount = Some (PyNum 50),
       amount_owed = Some (PyNum 50)\<rparr>]"

section \<open>Creating a split: \<^verbatim>\<open>create_or_update_split\<close> (backend/db.py) and \<^verbatim>\<open>create_split_endpoint\<close> (backend/main.py)\<close>

text \<open>
  The database is the module's global handle: \<open>None\<close> while not connected, otherwise the
  two collections the functions touch. A document's \<^verbatim>\<open>_id\<close> is a number here, and
  \<open>next_id\<close> is the one the next insert is given. The two timestamps of a split document
  are left out.
\<close>

record transaction =
  txn_id :: string
  txn_user_id :: string
  merchant :: string
  amount :: real
  category :: string
  date :: string

record split_doc =
  split_id :: nat
  split_user_id :: string
  split_transaction_id :: string
  split_merchant :: string
  split_total_amount :: real
  split_category :: string
  split_date :: string
  split_split_method :: string
  split_participants :: "participant list"
  split_notes :: "string option"

record database =
  transactions :: "transaction list"
  splits :: "split_doc list"
  next_id :: nat

text \<open>
  \<^verbatim>\<open>ObjectId(s)\<close> accepts a string of 24 hexadecimal digits and raises otherwise.
  Two object ids are equal when their twelve bytes are: the case of a digit does not
  matter. An object id is kept as the values of its 24 digits, and the \<^verbatim>\<open>_id\<close> of a
  stored transaction as the string that prints it.
\<close>

definition hex_digit :: "char \<Rightarrow> nat option" where
  "hex_digit c =
     map_of (zip ''0123456789abcdefABCDEF''
               [0, 1, 2, 3, 4, 5, 6, 7, 8, 9, 10, 11, 12, 13, 14, 15, 10, 11, 12, 13, 14, 15]) c"

definition object_id :: "string \<Rightarrow> nat list option" where
  "object_id s =
     (if length s = 24 \<and> list_all (\<lambda>c. hex_digit c \<noteq> None) s
      then Some (map (\<lambda>c. the (hex_digit c)) s) else None)"

definition find_transaction :: "database \<Rightarrow> nat list \<Rightarrow> string \<Rightarrow> transaction option" where
  "find_transaction d oid user_id =
     find (\<lambda>t. object_id (txn_id t) = Some oid \<and> txn_user_id t = user_id) (transactions d)"

definition find_split :: "database \<Rightarrow> string \<Rightarrow> string \<Rightarrow> split_doc option" where
  "find_split d transaction_id user_id =
     find (\<lambda>s. split_transaction_id s = transaction_id \<and> split_user_id s = user_id) (splits d)"

text \<open>
  \<^verbatim>\<open>create_or_update_split\<close>, lines 434-515. The result is the database afterwards and
  the id returned, \<open>None\<close> for Python's \<^verbatim>\<open>None\<close>. Every exception raised inside the
  \<^verbatim>\<open>try\<close> is caught there, printed, and turned into \<^verbatim>\<open>None\<close>: \<^verbatim>\<open>ValueError\<close> by
  the first handler, anything else by the second. The function raises nothing. The
  arithmetic of the allocation is the parameter \<open>ar\<close>.
\<close>

definition create_or_update_split ::
  "arith \<Rightarrow> database option \<Rightarrow> string \<Rightarrow> string \<Rightarrow> participant list \<Rightarrow> string
     \<Rightarrow> string option \<Rightarrow> database option \<times> nat option"
where
  "create_or_update_split ar db user_id transaction_id participants split_method notes =
     (case db of
        None \<Rightarrow> (db, None)
      | Some d \<Rightarrow>
          (case object_id transaction_id of
             None \<Rightarrow> (db, None)
           | Some oid \<Rightarrow>
            (case find_transaction d oid user_id of
               None \<Rightarrow> (db, None)
             | Some t \<Rightarrow>
                 (case calculate_split_amounts ar (amount t) participants split_method of
                    (ps, Some e) \<Rightarrow> (db, None)
                  | (calculated_participants, None) \<Rightarrow>
                      (case find_split d transaction_id user_id of
                         Some existing_split \<Rightarrow>
                           (Some (d\<lparr>splits :=
                                map (\<lambda>s. if split_id s = split_id existing_split
                                         then \<lparr>split_id = split_id s, split_user_id = user_id,
                                               split_transaction_id = transaction_id,
                                               split_merchant = merchant t,
                                               split_total_amount = amount t,
                                               split_category = category t,
                                               split_date = date t,
                                               split_split_method = split_method,
                                               split_participants = calculated_participants,
                                               split_notes = notes\<rparr>
                                         else s) (splits d)\<rparr>),
                            Some (split_id existing_split))
                       | None \<Rightarrow>
                           (Some (d\<lparr>splits := splits d @
                                [\<lparr>split_id = next_id d, split_user_id = user_id,
                                  split_transaction_id = transaction_id,
                                  split_merchant = merchant t,
                                  split_total_amount = amount t,
                                  split_category = category t,
                                  split_date = date t,
                                  split_split_method = split_method,
                                  split_participants = calculated_participants,
                                  split_notes = notes\<rparr>],
                                next_id := Suc (next_id d)\<rparr>),
                            Some (next_id d)))))))"

text \<open>\<^verbatim>\<open>get_split_by_transaction\<close>, lines 518-546.\<close>

definition get_split_by_transaction ::
  "database option \<Rightarrow> string \<Rightarrow> string \<Rightarrow> split_doc option"
where
  "get_split_by_transaction db user_id transaction_id =
     (case db of None \<Rightarrow> None | Some d \<Rightarrow> find_split d transaction_id user_id)"

text \<open>
  The endpoint, backend/main.py lines 514-563. A request is the validated
  \<^verbatim>\<open>CreateSplitRequest\<close>, its participants already as the dicts \<^verbatim>\<open>model_dump()\<close> makes.
  The endpoint answers with an \<^verbatim>\<open>ApiResponse\<close> or raises an \<^verbatim>\<open>HTTPException\<close> with a
  status code and a detail. The detail is kept as what it is formatted from;
  \<open>Server_error status detail\<close> is \<^verbatim>\<open>f"Server error: {str(e)}"\<close> for a caught
  \<^verbatim>\<open>HTTPException\<close> \<open>e\<close> with that status and detail, and \<open>Validation m\<close> is
  \<^verbatim>\<open>str(e)\<close> for a caught \<^verbatim>\<open>ValueError\<close>.

  Both \<^verbatim>\<open>HTTPException\<close>s raised inside the \<^verbatim>\<open>try\<close> are instances of
  \<^verbatim>\<open>Exception\<close> and not of \<^verbatim>\<open>ValueError\<close>, and this endpoint has no
  \<^verbatim>\<open>except HTTPException: raise\<close> clause: the last handler catches them and raises
  status 500 in their place. Nothing the \<^verbatim>\<open>try\<close> calls raises \<^verbatim>\<open>ValueError\<close>
  (\<open>create_or_update_split\<close> raises nothing), so the handler for it has no case here.
\<close>

record create_split_request =
  req_user_id :: string
  req_transaction_id :: string
  req_participants :: "participant list"
  req_split_method :: string
  req_notes :: "string option"

datatype detail =
    Invalid_split_method
  | Failed_to_create_split
  | Validation message
  | Server_error nat detail

datatype response =
    ApiResponse bool string "split_doc option"
  | HTTPException nat detail

definition create_split_endpoint ::
  "arith \<Rightarrow> database option \<Rightarrow> create_split_request \<Rightarrow> database option \<times> response"
where
  "create_split_endpoint ar db request =
     (if req_split_method request \<notin> set [''equal'', ''percentage'', ''ratio'']
      then (db, HTTPException 500 (Server_error 400 Invalid_split_method))
      else
        (case create_or_update_split ar db (req_user_id request) (req_transaction_id request)
                (req_participants request) (req_split_method request) (req_notes request) of
           (db', Some sid) \<Rightarrow>
             (db', ApiResponse True ''Split created/updated successfully''
                     (get_split_by_transaction db' (req_user_id request)
                        (req_transaction_id request)))
         | (db', None) \<Rightarrow> (db', HTTPException 500 (Server_error 400 Failed_to_create_split))))"

text \<open>
  An example: one stored transaction of 100, and a request to split it by percentage
  between two participants whose percentages add up to 99.5.
\<close>

definition example_db :: "database option" where
  "example_db =
     Some \<lparr>transactions =
             [\<lparr>txn_id = ''64b7f0c2a1d3e4f5a6b7c8d9'', txn_user_id = ''u1'',
               merchant = ''Amazon'', amount = 100, category = ''Shopping'',
               date = ''2025-10-18''\<rparr>],
           splits = [], next_id = 0\<rparr>"

definition short_percentages :: "participant list" where
  "short_percentages =
     [model_dump ''A'' (PyNum (99 / 2)) PyNone 100, model_dump ''B'' (PyNum 50) PyNone 0]"

definition short_percentages_request :: create_split_request where
  "short_percentages_request =
     \<lparr>req_user_id = ''u1'', req_transaction_id = ''64b7f0c2a1d3e4f5a6b7c8d9'',
      req_participants = short_percentages, req_split_method = ''percentage'',
      req_notes = None\<rparr>"

section \<open>Strings\<close>

text \<open>
  A Python \<^verbatim>\<open>str\<close> is modelled by its UTF-8 bytes. Every pattern, keyword and
  category of the program is ASCII except the rupee sign, which is the three bytes
  \<open>E2 82 B9\<close>.

  \<^verbatim>\<open>needle in haystack\<close> for two strings is the search for a sublist; on UTF-8 bytes
  it finds what Python finds on the characters.
\<close>

fun starts_with :: "string \<Rightarrow> string \<Rightarrow> bool" where
  "starts_with [] s = True"
| "starts_with (k # ks) [] = False"
| "starts_with (k # ks) (c # cs) = (k = c \<and> starts_with ks cs)"

fun py_in :: "string \<Rightarrow> string \<Rightarrow> bool" where
  "py_in needle [] = (needle = [])"
| "py_in needle (c # cs) = (starts_with needle (c # cs) \<or> py_in needle cs)"

text \<open>
  \<^verbatim>\<open>str.lower()\<close> and \<^verbatim>\<open>str.strip()\<close> are Python's, follow the Unicode tables and
  are not part of the repository. They are parameters of the model. What is proved with
  a variable \<open>sl\<close> holds for every pair of such functions, Python's included.
\<close>

record strlib =
  str_lower :: "string \<Rightarrow> string"
  str_strip :: "string \<Rightarrow> string"

text \<open>
  One pair, used for the examples: what the two functions do on a string of ASCII
  characters. Lower-casing maps \<open>A-Z\<close> to \<open>a-z\<close>; white space is tab, line feed,
  vertical tab, form feed, carriage return, the four separators 1C-1F and space.
\<close>

definition lower_char :: "char \<Rightarrow> char" where
  "lower_char c =
     (case map_of (zip ''ABCDEFGHIJKLMNOPQRSTUVWXYZ'' ''abcdefghijklmnopqrstuvwxyz'') c of
        Some l \<Rightarrow> l
      | None \<Rightarrow> c)"

definition ascii_lower :: "string \<Rightarrow> string" where
  "ascii_lower s = map lower_char s"

definition is_space :: "char \<Rightarrow> bool" where
  "is_space c =
     (c \<in> set [CHR 0x09, CHR 0x0A, CHR 0x0B, CHR 0x0C, CHR 0x0D,
                CHR 0x1C, CHR 0x1D, CHR 0x1E, CHR 0x1F, CHR 0x20])"

definition ascii_strip :: "string \<Rightarrow> string" where
  "ascii_strip s = rev (dropWhile is_space (rev (dropWhile is_space s)))"

definition ascii_strlib :: strlib where
  "ascii_strlib = \<lparr>str_lower = ascii_lower, str_strip = ascii_strip\<rparr>"

section \<open>Categorisation: backend/categorizer.py\<close>

definition get_valid_categories :: "string list" where
  "get_valid_categories =
     [''Food and Drinks'', ''Groceries'', ''Shopping'', ''Entertainment'',
      ''Travel and Transport'', ''Bills and Utilities'', ''Healthcare'', ''Education'',
      ''Investments'', ''Personal Care'', ''Subscriptions'', ''Others'']"

text \<open>
  The keyword lists of \<^verbatim>\<open>categorize_merchant_fallback\<close>, lines 105-209, each named
  after the category its \<^verbatim>\<open>if\<close> returns.
\<close>

definition food_and_drinks_keywords :: "string list" where
  "food_and_drinks_keywords =
      [''restaurant'', ''cafe'', ''coffee'', ''pizza'', ''burger'', ''food'', ''domino'',
       ''mcdonald'', ''kfc'', ''subway'', ''starbucks'', ''swiggy'', ''zomato'',
       ''ubereats'', ''dining'', ''kitchen'', ''biryani'', ''dhaba'', ''bar'', ''pub'',
       ''drinks'', ''bakery'', ''tea'', ''juice'', ''ice cream'', ''dunkin'']"

definition groceries_keywords :: "string list" where
  "groceries_keywords =
      [''grocery'', ''supermarket'', ''blinkit'', ''bigbasket'', ''grofers'',
       ''instamart'', ''dunzo'', ''fresh'', ''vegetables'', ''fruits'', ''dmart'',
       ''reliance fresh'', ''more megastore'', ''nature's basket'',
       ''spencer'', ''star bazaar'', ''jiomart'']"

definition shopping_keywords :: "string list" where
  "shopping_keywords =
      [''amazon'', ''flipkart'', ''myntra'', ''ajio'', ''meesho'', ''shop'', ''store'',
       ''mart'', ''bazaar'', ''mall'', ''retail'', ''fashion'', ''clothing'',
       ''electronics'', ''apparel'', ''furniture'', ''decor'', ''snapdeal'', ''nykaa'',
       ''lenskart'', ''vijay sales'', ''croma'', ''reliance digital'']"

definition entertainment_keywords :: "string list" where
  "entertainment_keywords =
      [''netflix'', ''prime'', ''hotstar'', ''spotify'', ''youtube'', ''movie'',
       ''cinema'', ''theater'', ''theatre'', ''pvr'', ''inox'', ''game'',
       ''entertainment'', ''music'', ''concert'', ''event'', ''bookmyshow'',
       ''paytm insider'', ''sony liv'', ''zee5'', ''disney'', ''voot'', ''mx player'']"

definition travel_and_transport_keywords :: "string list" where
  "travel_and_transport_keywords =
      [''uber'', ''ola'', ''rapido'', ''taxi'', ''cab'', ''metro'', ''bus'', ''train'',
       ''flight'', ''airline'', ''fuel'', ''petrol'', ''transport'', ''travel'',
       ''hotel'', ''resort'', ''booking'', ''airbnb'', ''makemytrip'', ''goibibo'',
       ''cleartrip'', ''irctc'', ''indigo'', ''spicejet'', ''vistara'', ''air india'',
       ''diesel'', ''parking'', ''toll'', ''oyo'']"

definition bills_and_utilities_keywords :: "string list" where
  "bills_and_utilities_keywords =
      [''electricity'', ''water'', ''gas'', ''bill'', ''utility'', ''broadband'',
       ''internet'', ''wifi'', ''recharge'', ''mobile'', ''airtel'', ''jio'',
       ''vodafone'', ''bsnl'', ''tata'', ''adani'', ''reliance'', ''postpaid'',
       ''prepaid'', ''tata sky'', ''dish tv'', ''sun direct'', ''airtel digital'',
       ''dth'']"

definition healthcare_keywords :: "string list" where
  "healthcare_keywords =
      [''hospital'', ''clinic'', ''doctor'', ''medical'', ''health'', ''pharmacy'',
       ''apollo'', ''medplus'', ''netmeds'', ''1mg'', ''pharmeasy'', ''medicine'',
       ''diagnostic'', ''lab'', ''test'', ''fortis'', ''max'', ''manipal'', ''narayana'',
       ''dental'', ''physiotherapy'', ''ayurveda'']"

definition education_keywords :: "string list" where
  "education_keywords =
      [''education'', ''school'', ''college'', ''university'', ''course'', ''tuition'',
       ''coaching'', ''udemy'', ''coursera'', ''upgrad'', ''byju'', ''unacademy'',
       ''vedantu'', ''toppr'', ''book'', ''library'', ''stationery'', ''exam'', ''fees'',
       ''admission'']"

definition investments_keywords :: "string list" where
  "investments_keywords =
      [''investment'', ''mutual fund'', ''stock'', ''sip'', ''insurance'', ''zerodha'',
       ''groww'', ''upstox'', ''angel'', ''paytm money'', ''lic'', ''hdfc life'',
       ''icici prudential'', ''sbi life'', ''policy'', ''premium'', ''fd'',
       ''fixed deposit'', ''recurring'']"

definition personal_care_keywords :: "string list" where
  "personal_care_keywords =
      [''salon'', ''spa'', ''beauty'', ''parlour'', ''gym'', ''fitness'', ''yoga'',
       ''massage'', ''wellness'', ''hair'', ''skin'', ''cult.fit'', ''urban company'',
       ''lakme'', ''vlcc'', ''grooming'', ''cosmetics'', ''makeup'']"

definition subscriptions_keywords :: "string list" where
  "subscriptions_keywords =
      [''subscription'', ''monthly'', ''annual'', ''membership'', ''amazon prime'',
       ''youtube premium'', ''linkedin premium'', ''office 365'', ''adobe'',
       ''microsoft'', ''apple'', ''google one'', ''icloud'', ''dropbox'', ''canva pro'']"

text \<open>
  \<^verbatim>\<open>categorize_merchant_fallback\<close>, lines 93-212: eleven \<^verbatim>\<open>if any(keyword in
  merchant_lower ...)\<close> in a row, then the default.
\<close>

definition any_keyword_in :: "string list \<Rightarrow> string \<Rightarrow> bool" where
  "any_keyword_in keywords merchant_lower =
     list_ex (\<lambda>keyword. py_in keyword merchant_lower) keywords"

definition categorize_merchant_fallback :: "strlib \<Rightarrow> string \<Rightarrow> string" where
  "categorize_merchant_fallback sl merchant_name =
     (let merchant_lower = str_lower sl merchant_name in
      if any_keyword_in food_and_drinks_keywords merchant_lower then ''Food and Drinks''
      else if any_keyword_in groceries_keywords merchant_lower then ''Groceries''
      else if any_keyword_in shopping_keywords merchant_lower then ''Shopping''
      else if any_keyword_in entertainment_keywords merchant_lower then ''Entertainment''
      else if any_keyword_in travel_and_transport_keywords merchant_lower
        then ''Travel and Transport''
      else if any_keyword_in bills_and_utilities_keywords merchant_lower
        then ''Bills and Utilities''
      else if any_keyword_in healthcare_keywords merchant_lower then ''Healthcare''
      else if any_keyword_in education_keywords merchant_lower then ''Education''
      else if any_keyword_in investments_keywords merchant_lower then ''Investments''
      else if any_keyword_in personal_care_keywords merchant_lower then ''Personal Care''
      else if any_keyword_in subscriptions_keywords merchant_lower then ''Subscriptions''
      else ''Others'')"

text \<open>
  The fallback as the specification words it: a table of categories in priority order,
  each with its keyword list, and the first category whose list has a keyword inside the
  lower-cased name.
\<close>

definition fallback_priority :: "(string \<times> string list) list" where
  "fallback_priority =
     [(''Food and Drinks'', food_and_drinks_keywords),
      (''Groceries'', groceries_keywords),
      (''Shopping'', shopping_keywords),
      (''Entertainment'', entertainment_keywords),
      (''Travel and Transport'', travel_and_transport_keywords),
      (''Bills and Utilities'', bills_and_utilities_keywords),
      (''Healthcare'', healthcare_keywords),
      (''Education'', education_keywords),
      (''Investments'', investments_keywords),
      (''Personal Care'', personal_care_keywords),
      (''Subscriptions'', subscriptions_keywords)]"

primrec first_matching_category :: "(string \<times> string list) list \<Rightarrow> string \<Rightarrow> string" where
  "first_matching_category [] merchant_lower = ''Others''"
| "first_matching_category (entry # rest) merchant_lower =
     (if list_ex (\<lambda>keyword. py_in keyword merchant_lower) (snd entry) then fst entry
      else first_matching_category rest merchant_lower)"

text \<open>
  \<^verbatim>\<open>categorize_merchant\<close>, lines 37-90. What the function reads from outside is a
  parameter: \<open>api_key\<close> is the environment variable (\<open>None\<close> when unset), and \<open>remote\<close>
  is the remote model, from the prompt to \<^verbatim>\<open>response.text\<close>, or to \<open>None\<close> when
  configuring, calling or reading the response raises. An exception anywhere in the
  \<^verbatim>\<open>try\<close> goes to the fallback.
\<close>

definition join_comma :: "string list \<Rightarrow> string" where
  "join_comma xs = (case xs of [] \<Rightarrow> [] | x # rest \<Rightarrow> x @ concat (map (\<lambda>y. '', '' @ y) rest))"

definition categorize_prompt :: "string \<Rightarrow> string" where
  "categorize_prompt merchant_name =
     ''Categorize this merchant into ONE category from the following list:'' @ [CHR 0x0A] @
     join_comma get_valid_categories @ [CHR 0x0A, CHR 0x0A] @
     ''Merchant: '' @ merchant_name @ [CHR 0x0A, CHR 0x0A] @
     ''Return ONLY the category name, nothing else. Choose the most appropriate category.''"

definition categorize_merchant ::
  "strlib \<Rightarrow> string option \<Rightarrow> (string \<Rightarrow> string option) \<Rightarrow> string \<Rightarrow> string"
where
  "categorize_merchant sl api_key remote merchant_name =
     (if api_key = None \<or> api_key = Some [] then categorize_merchant_fallback sl merchant_name
      else
        (case remote (categorize_prompt merchant_name) of
           None \<Rightarrow> categorize_merchant_fallback sl merchant_name
         | Some text \<Rightarrow>
             (let category = str_strip sl text in
              if category \<in> set get_valid_categories then category
              else
                (case find (\<lambda>valid_cat.
                          py_in (str_lower sl valid_cat) (str_lower sl category) \<or>
                          py_in (str_lower sl category) (str_lower sl valid_cat))
                        get_valid_categories of
                   Some valid_cat \<Rightarrow> valid_cat
                 | None \<Rightarrow> categorize_merchant_fallback sl merchant_name))))"

text \<open>A remote model that answers every prompt with the same text.\<close>

definition answers :: "string \<Rightarrow> string \<Rightarrow> string option" where
  "answers text prompt = Some text"
section \<open>Extraction: backend/parser.py\<close>

subsection \<open>Patterns and library functions\<close>

text \<open>
  The regular expressions of the program are kept as syntax trees. \<open>Lit w\<close> is the
  literal text \<open>w\<close>, \<open>Cls items\<close> a character class (\<open>Space\<close> is \<^verbatim>\<open>\s\<close>, \<open>Digit\<close> is
  \<^verbatim>\<open>\d\<close>), \<open>Rep r lo hi greedy\<close> is \<^verbatim>\<open>r{lo,hi}\<close> (\<open>hi = None\<close> for no upper bound),
  greedy or lazy: \<^verbatim>\<open>r*\<close> is \<open>Rep r 0 None True\<close>, \<^verbatim>\<open>r+?\<close> is \<open>Rep r 1 None False\<close>,
  \<^verbatim>\<open>r?\<close> is \<open>Rep r 0 (Some 1) True\<close>. \<open>Grp\<close> is a capturing group, \<open>Eos\<close> is \<^verbatim>\<open>$\<close>.
  Every pattern of the program is used with \<^verbatim>\<open>re.IGNORECASE\<close>.
\<close>

datatype cls_item = Ch char | Rng char char | Space | Digit

datatype rx =
    Lit string
  | Cls "cls_item list"
  | Seq rx rx
  | Alt rx rx
  | Rep rx nat "nat option" bool
  | Grp rx
  | Eos









text \<open>
  What the parser calls of Python's library is a parameter of the model, as the two
  string functions above are; none of it is part of the repository, and all of it
  follows the Unicode tables. \<open>re_group1 p text\<close> is \<^verbatim>\<open>p.search(text)\<close> followed by
  \<^verbatim>\<open>.group(1)\<close>, for a pattern with one group, and \<open>None\<close> when there is no match;
  \<open>re_groups3 p text\<close> is \<^verbatim>\<open>re.search(p, text, re.IGNORECASE)\<close> followed by
  \<^verbatim>\<open>.groups()\<close>, for a pattern with three groups. \<open>re_sub_spaces\<close> is
  \<^verbatim>\<open>re.sub(r'\s+', ' ', s)\<close>; \<open>str_float\<close> is \<^verbatim>\<open>float(s)\<close>, \<open>None\<close> for
  \<^verbatim>\<open>ValueError\<close>; \<open>str_isdigit\<close>, \<open>str_len\<close>, \<open>str_zfill2\<close> and \<open>str_take3\<close> are
  \<^verbatim>\<open>s.isdigit()\<close>, \<^verbatim>\<open>len(s)\<close>, \<^verbatim>\<open>s.zfill(2)\<close> and \<^verbatim>\<open>s[:3]\<close>. An amount is the
  real number the \<^verbatim>\<open>float\<close> denotes; a numeral so long that Python reads it as
  infinity is not modelled. What is proved with a variable \<open>L\<close> holds for every such
  library, Python's included.
\<close>

record pylib = strlib +
  re_group1 :: "rx \<Rightarrow> string \<Rightarrow> string option"
  re_groups3 :: "rx \<Rightarrow> string \<Rightarrow> (string \<times> string \<times> string) option"
  re_sub_spaces :: "string \<Rightarrow> string"
  str_float :: "string \<Rightarrow> real option"
  str_isdigit :: "string \<Rightarrow> bool"
  str_len :: "string \<Rightarrow> nat"
  str_zfill2 :: "string \<Rightarrow> string"
  str_take3 :: "string \<Rightarrow> string"

subsection \<open>The rules\<close>













text \<open>A rule is its name, its amount pattern and its merchant pattern.\<close>

type_synonym rule = "string \<times> rx \<times> rx"


subsection \<open>\<^verbatim>\<open>parse_transaction_from_email\<close>\<close>









definition months :: "(string \<times> string) list" where
  "months =
     [(''jan'', ''01''), (''feb'', ''02''), (''mar'', ''03''), (''apr'', ''04''),
      (''may'', ''05''), (''jun'', ''06''), (''jul'', ''07''), (''aug'', ''08''),
      (''sep'', ''09''), (''oct'', ''10''), (''nov'', ''11''), (''dec'', ''12'')]"

definition month_number :: "pylib \<Rightarrow> string \<Rightarrow> string" where
  "month_number L month_name =
     (case map_of months (str_take3 L (str_lower L month_name)) of
        Some m \<Rightarrow> m
      | None \<Rightarrow> ''01'')"

fun date_loop :: "pylib \<Rightarrow> rx list \<Rightarrow> string \<Rightarrow> string option" where
  "date_loop L [] text = None"
| "date_loop L (pattern # rest) text =
     (case re_groups3 L pattern text of
        None \<Rightarrow> date_loop L rest text
      | Some (g0, g1, g2) \<Rightarrow>
          if str_isdigit L g0 \<and> str_len L g0 = 4
            then Some (g0 @ ''-'' @ str_zfill2 L g1 @ ''-'' @ str_zfill2 L g2)
          else if str_isdigit L g1
            then Some (g2 @ ''-'' @ str_zfill2 L g1 @ ''-'' @ str_zfill2 L g0)
          else Some (g2 @ ''-'' @ month_number L g1 @ ''-'' @ str_zfill2 L g0))"








subsection \<open>The library on ASCII text\<close>




























section \<open>Facts about the allocation\<close>

lemma for_each_all_ok:
  "(\<And>p. p \<in> set ps \<Longrightarrow> body p = Inr (g p)) \<Longrightarrow> for_each body ps = (map g ps, None)"
  by (induction ps) auto

lemma py_sum_Inl: "py_sum ar vs = Inl e \<Longrightarrow> e = TypeError \<and> PyNone \<in> set vs"
  by (auto simp: py_sum_def split: if_splits)

lemma the_num_get:
  "dict_get v (PyNum d) \<noteq> PyNone \<Longrightarrow>
     dict_get v (PyNum d) = PyNum (num_or d v) \<and>
     the_num (dict_get v (PyNum d)) = num_or d v"
  by (cases "dict_get v (PyNum d)") (simp_all add: num_or_def)

lemma py_sum_get_Inr:
  assumes "py_sum ar (map (\<lambda>p. dict_get (key p) (PyNum d)) ps) = Inr s"
  shows "(\<forall>p \<in> set ps. dict_get (key p) (PyNum d) = PyNum (num_or d (key p))) \<and>
         s = summed ar d key ps"
proof -
  from assms have none: "PyNone \<notin> set (map (\<lambda>p. dict_get (key p) (PyNum d)) ps)"
    by (auto simp: py_sum_def split: if_splits)
  then have each: "\<forall>p \<in> set ps. dict_get (key p) (PyNum d) \<noteq> PyNone" by force
  then have a: "\<forall>p \<in> set ps. dict_get (key p) (PyNum d) = PyNum (num_or d (key p))"
    by (simp add: the_num_get)
  from each have mp: "map the_num (map (\<lambda>p. dict_get (key p) (PyNum d)) ps)
                    = map (\<lambda>p. num_or d (key p)) ps"
    by (simp add: the_num_get comp_def)
  from assms none
  have s: "s = (if ps = [] then 0
                else fsum ar (map the_num (map (\<lambda>p. dict_get (key p) (PyNum d)) ps)))"
    by (auto simp: py_sum_def simp del: map_map split: if_splits)
  have "s = summed ar d key ps" unfolding s mp summed_def ..
  with a show ?thesis by blast
qed

lemma py_sum_get_Inl:
  "py_sum ar (map (\<lambda>p. dict_get (key p) (PyNum d)) ps) = Inl e \<Longrightarrow>
     e = TypeError \<and> (\<exists>p \<in> set ps. key p = Some PyNone)"
proof -
  assume "py_sum ar (map (\<lambda>p. dict_get (key p) (PyNum d)) ps) = Inl e"
  from py_sum_Inl [OF this] obtain p where "e = TypeError" "p \<in> set ps"
    "dict_get (key p) (PyNum d) = PyNone"
    by auto
  then show ?thesis by (auto simp: dict_get_def split: option.splits)
qed

lemma py_sum_get_nums:
  assumes "\<forall>p \<in> set ps. key p \<noteq> Some PyNone"
  shows "py_sum ar (map (\<lambda>p. dict_get (key p) (PyNum d)) ps) = Inr (summed ar d key ps)"
proof (cases "py_sum ar (map (\<lambda>p. dict_get (key p) (PyNum d)) ps)")
  case (Inl e)
  from py_sum_get_Inl [OF this] assms show ?thesis by blast
next
  case (Inr s)
  with py_sum_get_Inr [OF Inr] show ?thesis by simp
qed

lemma compute_shares_equal:
  "ps \<noteq> [] \<Longrightarrow>
     compute_shares ar t ps ''equal'' = (map (equal_written ar t (length ps)) ps, None)"
  unfolding compute_shares_def Let_def
  by (simp add: for_each_all_ok [where g = "equal_written ar t (length ps)"] equal_body_def
      equal_written_def)

lemma compute_shares_percentage:
  "compute_shares ar t ps ''percentage'' =
     (case py_sum ar (map (\<lambda>p. dict_get (share_percentage p) (PyNum 0)) ps) of
        Inl e \<Rightarrow> (ps, Some e)
      | Inr total_percentage \<Rightarrow>
          if \<bar>fsub ar total_percentage 100\<bar> > hundredth ar
          then (ps, Some (ValueError (Percentages_must_add_up total_percentage)))
          else (map (percentage_written ar t) ps, None))"
proof (cases "py_sum ar (map (\<lambda>p. dict_get (share_percentage p) (PyNum 0)) ps)")
  case (Inl e)
  then show ?thesis by (simp add: compute_shares_def)
next
  case (Inr s)
  from py_sum_get_Inr [OF Inr]
  have "\<And>p. p \<in> set ps \<Longrightarrow> percentage_body ar t p = Inr (percentage_written ar t p)"
    by (simp add: percentage_body_def percentage_written_def)
  then have "for_each (percentage_body ar t) ps = (map (percentage_written ar t) ps, None)"
    by (rule for_each_all_ok)
  with Inr show ?thesis by (simp add: compute_shares_def)
qed

lemma compute_shares_ratio:
  "compute_shares ar t ps ''ratio'' =
     (case py_sum ar (map (\<lambda>p. dict_get (share_ratio p) (PyNum 1)) ps) of
        Inl e \<Rightarrow> (ps, Some e)
      | Inr total_ratio \<Rightarrow>
          if total_ratio = 0 \<and> ps \<noteq> [] then (ps, Some ZeroDivisionError)
          else (map (ratio_written ar t total_ratio) ps, None))"
proof (cases "py_sum ar (map (\<lambda>p. dict_get (share_ratio p) (PyNum 1)) ps)")
  case (Inl e)
  then show ?thesis by (simp add: compute_shares_def)
next
  case (Inr s)
  note nums = py_sum_get_Inr [OF Inr]
  show ?thesis
  proof (cases "s = 0")
    case True
    have "for_each (ratio_body ar t 0) ps
            = (if ps = [] then ([], None) else (ps, Some ZeroDivisionError))"
      using nums by (cases ps) (simp_all add: ratio_body_def)
    with Inr True show ?thesis by (simp add: compute_shares_def)
  next
    case False
    with nums have "\<And>p. p \<in> set ps \<Longrightarrow> ratio_body ar t s p = Inr (ratio_written ar t s p)"
      by (simp add: ratio_body_def ratio_written_def)
    then have "for_each (ratio_body ar t s) ps = (map (ratio_written ar t s) ps, None)"
      by (rule for_each_all_ok)
    with Inr False show ?thesis by (simp add: compute_shares_def)
  qed
qed

lemma compute_owed_cases:
  assumes "\<And>p. p \<in> set ps \<Longrightarrow> populated (share_amount p)"
  shows "compute_owed ar t ps =
     (case py_sum ar (map (\<lambda>p. dict_get (amount_paid p) (PyNum 0)) ps) of
        Inl e \<Rightarrow> (ps, Some e)
      | Inr total_paid \<Rightarrow>
          if \<bar>fsub ar total_paid t\<bar> > hundredth ar
          then (ps, Some (ValueError (Total_paid_must_equal total_paid t)))
          else (map (owed_written ar) ps, None))"
proof (cases "py_sum ar (map (\<lambda>p. dict_get (amount_paid p) (PyNum 0)) ps)")
  case (Inl e)
  then show ?thesis by (simp add: compute_owed_def)
next
  case (Inr s)
  have "\<And>p. p \<in> set ps \<Longrightarrow> owed_body ar p = Inr (owed_written ar p)"
  proof -
    fix p assume p: "p \<in> set ps"
    from assms [OF p] obtain x where x: "share_amount p = Some (PyNum x)"
      by (auto simp: populated_def split: option.splits pyval.splits)
    then have s: "dict_get (share_amount p) (PyNum 0) = PyNum x" "num_or 0 (share_amount p) = x"
      by (simp_all add: dict_get_def num_or_def)
    from py_sum_get_Inr [OF Inr] p
    have a: "dict_get (amount_paid p) (PyNum 0) = PyNum (num_or 0 (amount_paid p))" by blast
    show "owed_body ar p = Inr (owed_written ar p)"
      by (simp add: owed_body_def owed_written_def s a)
  qed
  then have "for_each (owed_body ar) ps = (map (owed_written ar) ps, None)"
    by (rule for_each_all_ok)
  with Inr show ?thesis by (simp add: compute_owed_def)
qed

lemma written_is_num:
  "populated (share_amount (equal_written ar t n p))"
  "populated (share_amount (percentage_written ar t p))"
  "populated (share_amount (ratio_written ar t r p))"
  "populated (amount_owed (owed_written ar p))"
  by (simp_all add: populated_def equal_written_def percentage_written_def ratio_written_def
      owed_written_def)

lemma compute_shares_writes_share_amount:
  assumes "compute_shares ar t ps m = (ps1, None)" and "m \<in> {''equal'', ''percentage'', ''ratio''}"
  shows "\<forall>p \<in> set ps1. populated (share_amount p)"
proof -
  consider "m = ''equal''" | "m = ''percentage''" | "m = ''ratio''" using assms(2) by blast
  then show ?thesis
  proof cases
    case 1
    show ?thesis
    proof (cases "ps = []")
      case True
      with 1 assms(1) show ?thesis by (simp add: compute_shares_def)
    next
      case False
      with 1 assms(1) show ?thesis by (auto simp: compute_shares_equal written_is_num)
    qed
  next
    case 2
    with assms(1) show ?thesis
      by (auto simp: compute_shares_percentage written_is_num split: sum.splits if_splits)
  next
    case 3
    with assms(1) show ?thesis
      by (auto simp: compute_shares_ratio written_is_num split: sum.splits if_splits)
  qed
qed

lemma owed_written_keeps:
  "total_of share_amount (map (owed_written ar) ps) = total_of share_amount ps"
  "total_of amount_paid (map (owed_written ar) ps) = total_of amount_paid ps"
  "map share_amount (map (owed_written ar) ps) = map share_amount ps"
  "map share_percentage (map (owed_written ar) ps) = map share_percentage ps"
  "map share_ratio (map (owed_written ar) ps) = map share_ratio ps"
  "map amount_paid (map (owed_written ar) ps) = map amount_paid ps"
  "map name (map (owed_written ar) ps) = map name ps"
  by (simp_all add: total_of_def owed_written_def comp_def)

lemma written_keep_paid:
  "amount_paid (equal_written ar t n p) = amount_paid p"
  "amount_paid (percentage_written ar t p) = amount_paid p"
  "amount_paid (ratio_written ar t r p) = amount_paid p"
  by (simp_all add: equal_written_def percentage_written_def ratio_written_def)

lemma summed_paid_written:
  "summed ar d amount_paid (map (equal_written ar t n) ps) = summed ar d amount_paid ps"
  "summed ar d amount_paid (map (percentage_written ar t) ps) = summed ar d amount_paid ps"
  "summed ar d amount_paid (map (ratio_written ar t r) ps) = summed ar d amount_paid ps"
  by (simp_all add: summed_def written_keep_paid comp_def)

lemma equal_written_fields:
  "share_amount (equal_written ar t n p) = Some (PyNum (fround2 ar (fdiv ar t (real n))))"
  "share_percentage (equal_written ar t n p) = Some (PyNum (fround2 ar (fdiv ar 100 (real n))))"
  "share_ratio (equal_written ar t n p) = Some (PyNum 1)"
  "name (equal_written ar t n p) = name p"
  by (simp_all add: equal_written_def)

lemma owed_written_other_fields:
  "share_amount (owed_written ar p) = share_amount p"
  "share_percentage (owed_written ar p) = share_percentage p"
  "share_ratio (owed_written ar p) = share_ratio p"
  "name (owed_written ar p) = name p"
  "amount_paid (owed_written ar p) = amount_paid p"
  by (simp_all add: owed_written_def)


lemma written_populated:
  "populated (share_percentage (equal_written ar t n p))"
  "populated (share_ratio (equal_written ar t n p))"
  "populated (share_percentage (ratio_written ar t r p))"
  "share_ratio (ratio_written ar t r p) = share_ratio p"
  "share_ratio (percentage_written ar t p) = share_ratio p"
  "share_percentage (percentage_written ar t p) = share_percentage p"
  by (simp_all add: populated_def equal_written_def ratio_written_def percentage_written_def)

text \<open>
  A call that returns: the shares were stored, the payments passed the check, and the
  settlement loop ran over the list the shares were stored in.
\<close>

lemma calculate_success:
  assumes "calculate_split_amounts ar t ps m = (ps', None)"
      and "m \<in> {''equal'', ''percentage'', ''ratio''}"
  obtains ps1 where "compute_shares ar t ps m = (ps1, None)"
      and "ps' = map (owed_written ar) ps1"
      and "\<forall>p \<in> set ps1. populated (share_amount p)"
      and "\<not> \<bar>fsub ar (summed ar 0 amount_paid ps1) t\<bar> > hundredth ar"
proof -
  obtain ps1 e1 where c: "compute_shares ar t ps m = (ps1, e1)"
    by (cases "compute_shares ar t ps m")
  with assms(1) have e1: "e1 = None" and o: "compute_owed ar t ps1 = (ps', None)"
    by (auto simp: calculate_split_amounts_def split: option.splits)
  from c e1 assms(2) have pop: "\<forall>p \<in> set ps1. populated (share_amount p)"
    by (simp add: compute_shares_writes_share_amount)
  then have cases: "compute_owed ar t ps1 =
     (case py_sum ar (map (\<lambda>p. dict_get (amount_paid p) (PyNum 0)) ps1) of
        Inl e \<Rightarrow> (ps1, Some e)
      | Inr total_paid \<Rightarrow>
          if \<bar>fsub ar total_paid t\<bar> > hundredth ar
          then (ps1, Some (ValueError (Total_paid_must_equal total_paid t)))
          else (map (owed_written ar) ps1, None))"
    by (simp add: compute_owed_cases)
  from o cases obtain tp
    where tp: "py_sum ar (map (\<lambda>p. dict_get (amount_paid p) (PyNum 0)) ps1) = Inr tp"
      and le: "\<not> \<bar>fsub ar tp t\<bar> > hundredth ar" and eq: "ps' = map (owed_written ar) ps1"
    by (auto split: sum.splits if_splits)
  from py_sum_get_Inr [OF tp] have "tp = summed ar 0 amount_paid ps1" by simp
  with le have "\<not> \<bar>fsub ar (summed ar 0 amount_paid ps1) t\<bar> > hundredth ar" by simp
  with c e1 eq pop show thesis using that by blast
qed

lemma compute_shares_success_written:
  assumes "compute_shares ar t ps m = (ps1, None)"
      and "m \<in> {''equal'', ''percentage'', ''ratio''}"
  shows "ps1 =
          (if m = ''equal'' then map (equal_written ar t (length ps)) ps
           else if m = ''percentage'' then map (percentage_written ar t) ps
           else map (ratio_written ar t (summed ar 1 share_ratio ps)) ps)"
proof -
  consider "m = ''equal''" | "m = ''percentage''" | "m = ''ratio''" using assms(2) by blast
  then show ?thesis
  proof cases
    case 1
    show ?thesis
    proof (cases "ps = []")
      case True
      with 1 assms(1) show ?thesis by (simp add: compute_shares_def)
    next
      case False
      with 1 assms(1) show ?thesis by (simp add: compute_shares_equal)
    qed
  next
    case 2
    with assms(1) show ?thesis
      by (auto simp: compute_shares_percentage split: sum.splits if_splits)
  next
    case 3
    with assms(1) obtain r
      where r: "py_sum ar (map (\<lambda>p. dict_get (share_ratio p) (PyNum 1)) ps) = Inr r"
        and eq: "ps1 = map (ratio_written ar t r) ps"
      by (auto simp: compute_shares_ratio split: sum.splits if_splits)
    from py_sum_get_Inr [OF r] have "r = summed ar 1 share_ratio ps" by simp
    with 3 eq show ?thesis by simp
  qed
qed

lemma compute_shares_error_kind:
  "compute_shares ar t ps m = (ps1, Some e) \<Longrightarrow> e \<noteq> ValueError (Total_paid_must_equal a b)"
proof -
  assume c: "compute_shares ar t ps m = (ps1, Some e)"
  consider "m = ''equal''" | "m = ''percentage''" | "m = ''ratio''"
    | "m \<notin> {''equal'', ''percentage'', ''ratio''}" by blast
  then show ?thesis
  proof cases
    case 1
    show ?thesis
    proof (cases "ps = []")
      case True
      with 1 c show ?thesis by (auto simp: compute_shares_def)
    next
      case False
      with 1 c show ?thesis by (simp add: compute_shares_equal)
    qed
  next
    case 2
    with c show ?thesis
      by (auto simp: compute_shares_percentage split: sum.splits if_splits dest: py_sum_Inl)
  next
    case 3
    with c show ?thesis
      by (auto simp: compute_shares_ratio split: sum.splits if_splits dest: py_sum_Inl)
  next
    case 4
    with c show ?thesis by (simp add: compute_shares_def)
  qed
qed

lemma compute_owed_payment_failure:
  assumes "\<And>p. p \<in> set ps \<Longrightarrow> populated (share_amount p)"
      and "snd (compute_owed ar t ps) = Some (ValueError (Total_paid_must_equal a b))"
  shows "fst (compute_owed ar t ps) = ps"
proof -
  have c: "compute_owed ar t ps =
     (case py_sum ar (map (\<lambda>p. dict_get (amount_paid p) (PyNum 0)) ps) of
        Inl e \<Rightarrow> (ps, Some e)
      | Inr total_paid \<Rightarrow>
          if \<bar>fsub ar total_paid t\<bar> > hundredth ar
          then (ps, Some (ValueError (Total_paid_must_equal total_paid t)))
          else (map (owed_written ar) ps, None))"
    using assms(1) by (rule compute_owed_cases)
  from assms(2) show ?thesis unfolding c by (auto split: sum.splits if_splits)
qed

lemma calculate_equal:
  assumes "ps \<noteq> []"
  shows "fst (calculate_split_amounts ar t ps ''equal'')
           = map (equal_written ar t (length ps)) ps \<or>
         fst (calculate_split_amounts ar t ps ''equal'') =
           map (owed_written ar) (map (equal_written ar t (length ps)) ps)"
proof -
  let ?ps1 = "map (equal_written ar t (length ps)) ps"
  have c: "compute_shares ar t ps ''equal'' = (?ps1, None)"
    using assms by (rule compute_shares_equal)
  have "\<And>p. p \<in> set ?ps1 \<Longrightarrow> populated (share_amount p)"
    by (auto simp: written_is_num)
  from compute_owed_cases [OF this, of ?ps1 ar t] c show ?thesis
    by (auto simp: calculate_split_amounts_def split: sum.splits)
qed

text \<open>Evaluating the exact arithmetic.\<close>

lemma exact_arith_simps:
  "fsum exact_arith = sum_list"
  "fdiv exact_arith a b = a / b"
  "fmul exact_arith a b = a * b"
  "fsub exact_arith a b = a - b"
  "fround2 exact_arith = round2"
  "hundredth exact_arith = 1 / 100"
  by (simp_all add: exact_arith_def)

lemmas allocation_eval =
  calculate_split_amounts_def compute_shares_def compute_owed_def equal_body_def
  percentage_body_def ratio_body_def owed_body_def dict_get_def py_sum_def exact_arith_simps
  round2_def round_half_even_def new_participant_def model_dump_def Let_def

section \<open>Claims about the allocation\<close>






text \<open>
  Claim C2, for every arithmetic. Under the equal method every participant of a
  non-empty list is given \<open>share_amount = round(total_amount / n, 2)\<close>,
  \<open>share_percentage = round(100 / n, 2)\<close> and \<open>share_ratio = 1\<close>, whatever the payment
  check then says. For a total of 300 and three participants of whom the first paid 300
  and the others have no payment, in every arithmetic that is exact on the eight
  operations on whole numbers the call performs: the call returns, each share is 100,
  the payer is owed 200 (\<open>amount_owed = -200\<close>), the other two owe 100 each, and the
  amounts owed add up to 0.
\<close>

theorem equal_method_shares:
  "(participants \<noteq> [] \<longrightarrow>
      map name (fst (calculate_split_amounts ar total_amount participants ''equal''))
        = map name participants \<and>
      (\<forall>p \<in> set (fst (calculate_split_amounts ar total_amount participants ''equal'')).
         share_amount p =
           Some (PyNum (fround2 ar (fdiv ar total_amount (real (length participants))))) \<and>
         share_percentage p =
           Some (PyNum (fround2 ar (fdiv ar 100 (real (length participants))))) \<and>
         share_ratio p = Some (PyNum 1))) \<and>
   (fdiv ar 300 3 = 100 \<and> fround2 ar 100 = 100 \<and> fsum ar [300, 0, 0] = 300 \<and>
    fsub ar 300 300 = 0 \<and> 0 \<le> hundredth ar \<and> fsub ar 100 300 = - 200 \<and>
    fround2 ar (- 200) = - 200 \<and> fsub ar 100 0 = 100 \<longrightarrow>
      snd (calculate_split_amounts ar 300 three_way ''equal'') = None \<and>
      map share_amount (fst (calculate_split_amounts ar 300 three_way ''equal''))
        = [Some (PyNum 100), Some (PyNum 100), Some (PyNum 100)] \<and>
      map amount_owed (fst (calculate_split_amounts ar 300 three_way ''equal''))
        = [Some (PyNum (- 200)), Some (PyNum 100), Some (PyNum 100)] \<and>
      total_of amount_owed (fst (calculate_split_amounts ar 300 three_way ''equal'')) = 0)"
proof -
  have a: "participants \<noteq> [] \<longrightarrow>
      map name (fst (calculate_split_amounts ar total_amount participants ''equal''))
        = map name participants \<and>
      (\<forall>p \<in> set (fst (calculate_split_amounts ar total_amount participants ''equal'')).
         share_amount p =
           Some (PyNum (fround2 ar (fdiv ar total_amount (real (length participants))))) \<and>
         share_percentage p =
           Some (PyNum (fround2 ar (fdiv ar 100 (real (length participants))))) \<and>
         share_ratio p = Some (PyNum 1))"
  proof
    assume "participants \<noteq> []"
    from calculate_equal [OF this, of ar total_amount]
    show "map name (fst (calculate_split_amounts ar total_amount participants ''equal''))
        = map name participants \<and>
      (\<forall>p \<in> set (fst (calculate_split_amounts ar total_amount participants ''equal'')).
         share_amount p =
           Some (PyNum (fround2 ar (fdiv ar total_amount (real (length participants))))) \<and>
         share_percentage p =
           Some (PyNum (fround2 ar (fdiv ar 100 (real (length participants))))) \<and>
         share_ratio p = Some (PyNum 1))"
      by (auto simp: equal_written_fields owed_written_other_fields comp_def)
  qed
  have b: "fdiv ar 300 3 = 100 \<and> fround2 ar 100 = 100 \<and> fsum ar [300, 0, 0] = 300 \<and>
    fsub ar 300 300 = 0 \<and> 0 \<le> hundredth ar \<and> fsub ar 100 300 = - 200 \<and>
    fround2 ar (- 200) = - 200 \<and> fsub ar 100 0 = 100 \<longrightarrow>
      snd (calculate_split_amounts ar 300 three_way ''equal'') = None \<and>
      map share_amount (fst (calculate_split_amounts ar 300 three_way ''equal''))
        = [Some (PyNum 100), Some (PyNum 100), Some (PyNum 100)] \<and>
      map amount_owed (fst (calculate_split_amounts ar 300 three_way ''equal''))
        = [Some (PyNum (- 200)), Some (PyNum 100), Some (PyNum 100)] \<and>
      total_of amount_owed (fst (calculate_split_amounts ar 300 three_way ''equal'')) = 0"
  proof
    assume h: "fdiv ar 300 3 = 100 \<and> fround2 ar 100 = 100 \<and> fsum ar [300, 0, 0] = 300 \<and>
      fsub ar 300 300 = 0 \<and> 0 \<le> hundredth ar \<and> fsub ar 100 300 = - 200 \<and>
      fround2 ar (- 200) = - 200 \<and> fsub ar 100 0 = 100"
    have c: "calculate_split_amounts ar 300 three_way ''equal'' =
      ([(three_way ! 0)\<lparr>share_amount := Some (PyNum 100),
           share_percentage := Some (PyNum (fround2 ar (fdiv ar 100 3))),
           share_ratio := Some (PyNum 1), amount_owed := Some (PyNum (- 200))\<rparr>,
        (three_way ! 1)\<lparr>share_amount := Some (PyNum 100),
           share_percentage := Some (PyNum (fround2 ar (fdiv ar 100 3))),
           share_ratio := Some (PyNum 1), amount_owed := Some (PyNum 100)\<rparr>,
        (three_way ! 2)\<lparr>share_amount := Some (PyNum 100),
           share_percentage := Some (PyNum (fround2 ar (fdiv ar 100 3))),
           share_ratio := Some (PyNum 1), amount_owed := Some (PyNum 100)\<rparr>], None)"
      using h
      by (simp add: calculate_split_amounts_def compute_shares_def compute_owed_def
          equal_body_def owed_body_def dict_get_def py_sum_def new_participant_def
          three_way_def Let_def)
    show "snd (calculate_split_amounts ar 300 three_way ''equal'') = None \<and>
      map share_amount (fst (calculate_split_amounts ar 300 three_way ''equal''))
        = [Some (PyNum 100), Some (PyNum 100), Some (PyNum 100)] \<and>
      map amount_owed (fst (calculate_split_amounts ar 300 three_way ''equal''))
        = [Some (PyNum (- 200)), Some (PyNum 100), Some (PyNum 100)] \<and>
      total_of amount_owed (fst (calculate_split_amounts ar 300 three_way ''equal'')) = 0"
      unfolding c by (simp add: total_of_def num_or_def dict_get_def)
  qed
  from a b show ?thesis by blast
qed

text \<open>
  The theorem at the three-way split of 300 in the exact arithmetic, which is exact on
  the eight operations.
\<close>

theorem equal_method_shares_witness:
  "three_way \<noteq> [] \<and>
   map name (fst (calculate_split_amounts exact_arith 300 three_way ''equal''))
     = [''A'', ''B'', ''C''] \<and>
   list_all (\<lambda>p. share_amount p = Some (PyNum 100) \<and>
                  share_percentage p = Some (PyNum (3333 / 100)) \<and>
                  share_ratio p = Some (PyNum 1))
     (fst (calculate_split_amounts exact_arith 300 three_way ''equal'')) \<and>
   fdiv exact_arith 300 3 = 100 \<and> fround2 exact_arith 100 = 100 \<and>
   fsum exact_arith [300, 0, 0] = 300 \<and> fsub exact_arith 300 300 = 0 \<and>
   0 \<le> hundredth exact_arith \<and> fsub exact_arith 100 300 = - 200 \<and>
   fround2 exact_arith (- 200) = - 200 \<and> fsub exact_arith 100 0 = 100 \<and>
   snd (calculate_split_amounts exact_arith 300 three_way ''equal'') = None \<and>
   map share_amount (fst (calculate_split_amounts exact_arith 300 three_way ''equal''))
     = [Some (PyNum 100), Some (PyNum 100), Some (PyNum 100)] \<and>
   map amount_owed (fst (calculate_split_amounts exact_arith 300 three_way ''equal''))
     = [Some (PyNum (- 200)), Some (PyNum 100), Some (PyNum 100)] \<and>
   total_of amount_owed (fst (calculate_split_amounts exact_arith 300 three_way ''equal'')) = 0"
proof -
  have ne: "three_way \<noteq> []" by (simp add: three_way_def)
  have h: "fdiv exact_arith 300 3 = 100 \<and> fround2 exact_arith 100 = 100 \<and>
    fsum exact_arith [300, 0, 0] = 300 \<and> fsub exact_arith 300 300 = 0 \<and>
    0 \<le> hundredth exact_arith \<and> fsub exact_arith 100 300 = - 200 \<and>
    fround2 exact_arith (- 200) = - 200 \<and> fsub exact_arith 100 0 = 100"
    by (simp add: exact_arith_simps round2_def round_half_even_def Let_def)
  have r: "fround2 exact_arith (fdiv exact_arith 300 (real (length three_way))) = 100"
    "fround2 exact_arith (fdiv exact_arith 100 (real (length three_way))) = 3333 / 100"
    by (simp_all add: three_way_def exact_arith_simps round2_def round_half_even_def Let_def)
  have n: "map name three_way = [''A'', ''B'', ''C'']"
    by (simp add: three_way_def new_participant_def)
  note t = equal_method_shares [of three_way exact_arith 300]
  from t ne
  have g: "map name (fst (calculate_split_amounts exact_arith 300 three_way ''equal''))
        = map name three_way \<and>
      (\<forall>p \<in> set (fst (calculate_split_amounts exact_arith 300 three_way ''equal'')).
         share_amount p =
           Some (PyNum (fround2 exact_arith (fdiv exact_arith 300 (real (length three_way))))) \<and>
         share_percentage p =
           Some (PyNum (fround2 exact_arith (fdiv exact_arith 100 (real (length three_way))))) \<and>
         share_ratio p = Some (PyNum 1))"
    by blast
  from t h
  have e: "snd (calculate_split_amounts exact_arith 300 three_way ''equal'') = None \<and>
      map share_amount (fst (calculate_split_amounts exact_arith 300 three_way ''equal''))
        = [Some (PyNum 100), Some (PyNum 100), Some (PyNum 100)] \<and>
      map amount_owed (fst (calculate_split_amounts exact_arith 300 three_way ''equal''))
        = [Some (PyNum (- 200)), Some (PyNum 100), Some (PyNum 100)] \<and>
      total_of amount_owed (fst (calculate_split_amounts exact_arith 300 three_way ''equal''))
        = 0"
    by blast
  have g': "map name (fst (calculate_split_amounts exact_arith 300 three_way ''equal''))
     = [''A'', ''B'', ''C''] \<and>
   list_all (\<lambda>p. share_amount p = Some (PyNum 100) \<and>
                  share_percentage p = Some (PyNum (3333 / 100)) \<and>
                  share_ratio p = Some (PyNum 1))
     (fst (calculate_split_amounts exact_arith 300 three_way ''equal''))"
    using g by (simp add: list_all_iff r n)
  from ne g' h e show ?thesis by blast
qed

text \<open>
  Claim C10, for every arithmetic. The function updates the caller's participants in
  place, and the payment check comes after the shares are stored. Whenever the call
  raises the payment-sum \<^verbatim>\<open>ValueError\<close>, the caller's list holds the shares the
  method's branch wrote: the input is not restored.
\<close>

theorem payment_failure_keeps_written_shares:
  assumes "snd (calculate_split_amounts ar total_amount participants split_method)
             = Some (ValueError (Total_paid_must_equal paid expected))"
      and "split_method \<in> {''equal'', ''percentage'', ''ratio''}"
  shows "fst (calculate_split_amounts ar total_amount participants split_method) =
          (if split_method = ''equal''
             then map (equal_written ar total_amount (length participants)) participants
           else if split_method = ''percentage''
             then map (percentage_written ar total_amount) participants
           else map (ratio_written ar total_amount (summed ar 1 share_ratio participants))
                  participants)"
proof -
  obtain ps1 e1 where c: "compute_shares ar total_amount participants split_method = (ps1, e1)"
    by (cases "compute_shares ar total_amount participants split_method")
  have e1: "e1 = None"
  proof (cases e1)
    case None
    then show ?thesis .
  next
    case (Some e)
    with c assms(1) have "e = ValueError (Total_paid_must_equal paid expected)"
      by (simp add: calculate_split_amounts_def)
    with compute_shares_error_kind [of ar total_amount participants split_method ps1 e
        paid expected] c Some
    show ?thesis by simp
  qed
  with c have calc: "calculate_split_amounts ar total_amount participants split_method
                      = compute_owed ar total_amount ps1"
    by (simp add: calculate_split_amounts_def)
  from c e1 assms(2) have pop: "\<And>p. p \<in> set ps1 \<Longrightarrow> populated (share_amount p)"
    using compute_shares_writes_share_amount by blast
  from assms(1) have "snd (compute_owed ar total_amount ps1)
      = Some (ValueError (Total_paid_must_equal paid expected))"
    unfolding calc .
  with pop have "fst (compute_owed ar total_amount ps1) = ps1"
    using compute_owed_payment_failure [of ps1 ar total_amount paid expected] by blast
  with calc compute_shares_success_written [OF c [unfolded e1] assms(2)] show ?thesis by simp
qed

text \<open>
  Three participants, nobody paid, total 300, in the exact arithmetic: the call raises,
  and the caller's participants, which had no share amount, now have one.
\<close>

theorem payment_failure_keeps_written_shares_witness:
  "snd (calculate_split_amounts exact_arith 300 three_unpaid ''equal'')
     = Some (ValueError (Total_paid_must_equal 0 300)) \<and>
   fst (calculate_split_amounts exact_arith 300 three_unpaid ''equal'')
     = map (equal_written exact_arith 300 (length three_unpaid)) three_unpaid \<and>
   map share_amount three_unpaid = [None, None, None] \<and>
   map share_amount (fst (calculate_split_amounts exact_arith 300 three_unpaid ''equal''))
     = [Some (PyNum 100), Some (PyNum 100), Some (PyNum 100)]"
proof -
  have s: "snd (calculate_split_amounts exact_arith 300 three_unpaid ''equal'')
     = Some (ValueError (Total_paid_must_equal 0 300))"
    by (simp add: allocation_eval three_unpaid_def)
  have m: "''equal'' \<in> {''equal'', ''percentage'', ''ratio''}" by simp
  have f: "fst (calculate_split_amounts exact_arith 300 three_unpaid ''equal'')
     = map (equal_written exact_arith 300 (length three_unpaid)) three_unpaid"
    using payment_failure_keeps_written_shares [OF s m] by simp
  have "map share_amount three_unpaid = [None, None, None]"
    by (simp add: three_unpaid_def new_participant_def)
  moreover have "map share_amount
       (map (equal_written exact_arith 300 (length three_unpaid)) three_unpaid)
     = [Some (PyNum 100), Some (PyNum 100), Some (PyNum 100)]"
    by (simp add: three_unpaid_def equal_written_def exact_arith_simps round2_def
        round_half_even_def Let_def)
  ultimately show ?thesis using s f by simp
qed

text \<open>
  Claim C5, as the code has it, for every arithmetic. An allocation that returns has
  stored a share amount and an amount owed in every participant. The equal method also
  stores the percentage and the ratio; the ratio method stores the percentage and leaves
  the ratio key as it was; the percentage method leaves both the percentage and the
  ratio keys as they were.
\<close>

theorem allocation_populated_fields:
  assumes "calculate_split_amounts ar total_amount participants split_method = (allocated, None)"
      and "split_method \<in> {''equal'', ''percentage'', ''ratio''}"
  shows "(\<forall>p \<in> set allocated. populated (share_amount p) \<and> populated (amount_owed p)) \<and>
         (split_method = ''equal'' \<longrightarrow>
            (\<forall>p \<in> set allocated. populated (share_percentage p) \<and> populated (share_ratio p))) \<and>
         (split_method = ''ratio'' \<longrightarrow>
            (\<forall>p \<in> set allocated. populated (share_percentage p)) \<and>
            map share_ratio allocated = map share_ratio participants) \<and>
         (split_method = ''percentage'' \<longrightarrow>
            map share_percentage allocated = map share_percentage participants \<and>
            map share_ratio allocated = map share_ratio participants)"
proof -
  from assms obtain ps1
    where c: "compute_shares ar total_amount participants split_method = (ps1, None)"
      and eq: "allocated = map (owed_written ar) ps1"
      and pop: "\<forall>p \<in> set ps1. populated (share_amount p)"
    by (rule calculate_success)
  note w = compute_shares_success_written [OF c assms(2)]
  have a: "\<forall>p \<in> set allocated. populated (share_amount p) \<and> populated (amount_owed p)"
    using pop unfolding eq by (auto simp: owed_written_other_fields written_is_num)
  have b: "split_method = ''equal'' \<longrightarrow>
            (\<forall>p \<in> set allocated. populated (share_percentage p) \<and> populated (share_ratio p))"
    using w unfolding eq by (auto simp: owed_written_other_fields written_populated)
  have d: "split_method = ''ratio'' \<longrightarrow>
            (\<forall>p \<in> set allocated. populated (share_percentage p)) \<and>
            map share_ratio allocated = map share_ratio participants"
    using w unfolding eq by (auto simp: owed_written_other_fields written_populated)
  have e: "split_method = ''percentage'' \<longrightarrow>
            map share_percentage allocated = map share_percentage participants \<and>
            map share_ratio allocated = map share_ratio participants"
    using w unfolding eq by (auto simp: owed_written_other_fields written_populated)
  from a b d e show ?thesis by blast
qed

lemma halves_percentage:
  "calculate_split_amounts exact_arith 100 halves_dumped ''percentage''
     = (halves_allocated, None)"
  by (simp add: allocation_eval halves_dumped_def halves_allocated_def)

text \<open>The theorem at a 50/50 percentage split of 100, in the exact arithmetic.\<close>

theorem allocation_populated_fields_witness:
  "calculate_split_amounts exact_arith 100 halves_dumped ''percentage''
     = (halves_allocated, None) \<and>
   list_all (\<lambda>p. populated (share_amount p) \<and> populated (amount_owed p)) halves_allocated \<and>
   map share_percentage halves_allocated = map share_percentage halves_dumped \<and>
   map share_ratio halves_allocated = map share_ratio halves_dumped"
proof -
  have m: "''percentage'' \<in> {''equal'', ''percentage'', ''ratio''}" by simp
  from allocation_populated_fields [OF halves_percentage m] halves_percentage
  show ?thesis by (simp add: list_all_iff)
qed

text \<open>
  Claim C5 as the specification states it fails: a 50/50 percentage split of 100 returns,
  and the first participant's \<^verbatim>\<open>share_ratio\<close> is still \<^verbatim>\<open>None\<close>.
\<close>

theorem share_ratio_not_populated_counterexample:
  "snd (calculate_split_amounts exact_arith 100 halves_dumped ''percentage'') = None \<and>
   \<not> populated (share_ratio
        (hd (fst (calculate_split_amounts exact_arith 100 halves_dumped ''percentage''))))"
  unfolding halves_percentage fst_conv snd_conv
  by (simp add: halves_allocated_def populated_def)

text \<open>
  Claim C3 at a request that leaves \<^verbatim>\<open>share_ratio\<close> out, for every arithmetic. The two
  participants are what \<^verbatim>\<open>model_dump()\<close> makes of them, the payments add up to the
  total of 100, and the method is ratio. The call raises \<^verbatim>\<open>TypeError\<close> in \<^verbatim>\<open>sum\<close>:
  the default 1 of \<^verbatim>\<open>get('share_ratio', 1)\<close> is never used, because the key is present
  and holds \<^verbatim>\<open>None\<close>. The claim has the call return.
\<close>

theorem omitted_ratio_raises_type_error:
  "calculate_split_amounts ar 100 ratio_omitted ''ratio'' = (ratio_omitted, Some TypeError)"
  by (simp add: calculate_split_amounts_def compute_shares_def py_sum_def dict_get_def
      model_dump_def ratio_omitted_def)

text \<open>
  When no key holds \<^verbatim>\<open>None\<close> and the ratios do not add up to zero, the outcome of the
  call on a non-empty list is the one the specification describes, the sums and the
  differences being the ones the program computes: the percentage error first, then the
  payment error, and otherwise a normal return.
\<close>

lemma calculate_split_amounts_outcome:
  assumes ne: "ps \<noteq> []"
      and m: "m \<in> {''equal'', ''percentage'', ''ratio''}"
      and nums: "\<forall>p \<in> set ps. share_percentage p \<noteq> Some PyNone \<and>
                   share_ratio p \<noteq> Some PyNone \<and> amount_paid p \<noteq> Some PyNone"
      and ratios: "summed ar 1 share_ratio ps \<noteq> 0"
  shows "snd (calculate_split_amounts ar t ps m) =
          (if m = ''percentage'' \<and>
              \<bar>fsub ar (summed ar 0 share_percentage ps) 100\<bar> > hundredth ar
             then Some (ValueError (Percentages_must_add_up (summed ar 0 share_percentage ps)))
           else if \<bar>fsub ar (summed ar 0 amount_paid ps) t\<bar> > hundredth ar
             then Some (ValueError (Total_paid_must_equal (summed ar 0 amount_paid ps) t))
           else None)"
proof -
  have P: "py_sum ar (map (\<lambda>p. dict_get (share_percentage p) (PyNum 0)) ps)
             = Inr (summed ar 0 share_percentage ps)"
    using nums by (simp add: py_sum_get_nums)
  have R: "py_sum ar (map (\<lambda>p. dict_get (share_ratio p) (PyNum 1)) ps)
             = Inr (summed ar 1 share_ratio ps)"
    using nums by (simp add: py_sum_get_nums)
  have owed: "\<And>ps1. (\<And>p. p \<in> set ps1 \<Longrightarrow> populated (share_amount p)) \<Longrightarrow>
      map amount_paid ps1 = map amount_paid ps \<Longrightarrow>
      snd (compute_owed ar t ps1) =
        (if \<bar>fsub ar (summed ar 0 amount_paid ps) t\<bar> > hundredth ar
         then Some (ValueError (Total_paid_must_equal (summed ar 0 amount_paid ps) t))
         else None)"
  proof -
    fix ps1 :: "participant list"
    assume pop: "\<And>p. p \<in> set ps1 \<Longrightarrow> populated (share_amount p)"
      and same: "map amount_paid ps1 = map amount_paid ps"
    from same have "map (\<lambda>p. f (amount_paid p)) ps1 = map (\<lambda>p. f (amount_paid p)) ps"
      for f :: "pyval option \<Rightarrow> real"
      using map_map [of f amount_paid ps1] map_map [of f amount_paid ps]
      by (simp add: comp_def)
    note same' = this
    have len: "ps1 = [] \<longleftrightarrow> ps = []" using same by (metis map_is_Nil_conv)
    have "\<forall>p \<in> set ps1. amount_paid p \<noteq> Some PyNone"
    proof
      fix p assume "p \<in> set ps1"
      then have "amount_paid p \<in> set (map amount_paid ps)" unfolding same [symmetric] by simp
      with nums show "amount_paid p \<noteq> Some PyNone" by auto
    qed
    then have A: "py_sum ar (map (\<lambda>p. dict_get (amount_paid p) (PyNum 0)) ps1)
             = Inr (summed ar 0 amount_paid ps1)"
      by (simp add: py_sum_get_nums)
    have S: "summed ar 0 amount_paid ps1 = summed ar 0 amount_paid ps"
      using same' [of "num_or 0"] len by (simp add: summed_def)
    have "compute_owed ar t ps1 =
     (case py_sum ar (map (\<lambda>p. dict_get (amount_paid p) (PyNum 0)) ps1) of
        Inl e \<Rightarrow> (ps1, Some e)
      | Inr total_paid \<Rightarrow>
          if \<bar>fsub ar total_paid t\<bar> > hundredth ar
          then (ps1, Some (ValueError (Total_paid_must_equal total_paid t)))
          else (map (owed_written ar) ps1, None))"
      using pop by (rule compute_owed_cases)
    then show "snd (compute_owed ar t ps1) =
        (if \<bar>fsub ar (summed ar 0 amount_paid ps) t\<bar> > hundredth ar
         then Some (ValueError (Total_paid_must_equal (summed ar 0 amount_paid ps) t))
         else None)"
      by (simp add: A S)
  qed
  consider "m = ''equal''" | "m = ''percentage''" | "m = ''ratio''" using m by blast
  then show ?thesis
  proof cases
    case 1
    have c: "compute_shares ar t ps m = (map (equal_written ar t (length ps)) ps, None)"
      using 1 ne by (simp add: compute_shares_equal)
    have "snd (compute_owed ar t (map (equal_written ar t (length ps)) ps)) =
        (if \<bar>fsub ar (summed ar 0 amount_paid ps) t\<bar> > hundredth ar
         then Some (ValueError (Total_paid_must_equal (summed ar 0 amount_paid ps) t))
         else None)"
      by (rule owed) (auto simp: written_is_num written_keep_paid)
    with c 1 show ?thesis by (simp add: calculate_split_amounts_def)
  next
    case 2
    show ?thesis
    proof (cases "\<bar>fsub ar (summed ar 0 share_percentage ps) 100\<bar> > hundredth ar")
      case True
      with 2 P show ?thesis
        by (simp add: calculate_split_amounts_def compute_shares_percentage)
    next
      case False
      with 2 P have c: "compute_shares ar t ps m = (map (percentage_written ar t) ps, None)"
        by (simp add: compute_shares_percentage)
      have "snd (compute_owed ar t (map (percentage_written ar t) ps)) =
        (if \<bar>fsub ar (summed ar 0 amount_paid ps) t\<bar> > hundredth ar
         then Some (ValueError (Total_paid_must_equal (summed ar 0 amount_paid ps) t))
         else None)"
        by (rule owed) (auto simp: written_is_num written_keep_paid)
      with c 2 False show ?thesis by (simp add: calculate_split_amounts_def)
    qed
  next
    case 3
    with R ratios ne
    have c: "compute_shares ar t ps m
               = (map (ratio_written ar t (summed ar 1 share_ratio ps)) ps, None)"
      by (simp add: compute_shares_ratio)
    have "snd (compute_owed ar t (map (ratio_written ar t (summed ar 1 share_ratio ps)) ps)) =
        (if \<bar>fsub ar (summed ar 0 amount_paid ps) t\<bar> > hundredth ar
         then Some (ValueError (Total_paid_must_equal (summed ar 0 amount_paid ps) t))
         else None)"
      by (rule owed) (auto simp: written_is_num written_keep_paid)
    with c 3 show ?thesis by (simp add: calculate_split_amounts_def)
  qed
qed


section \<open>Claims about creating a split\<close>

lemma short_percentages_validation:
  "calculate_split_amounts exact_arith 100 short_percentages ''percentage''
     = (short_percentages, Some (ValueError (Percentages_must_add_up (199 / 2))))"
  by (simp add: allocation_eval short_percentages_def)

lemma object_id_example:
  "object_id ''64b7f0c2a1d3e4f5a6b7c8d9'' =
     Some [6, 4, 11, 7, 15, 0, 12, 2, 10, 1, 13, 3, 14, 4, 15, 5, 10, 6, 11, 7, 12, 8, 13, 9]"
  by (simp add: object_id_def hex_digit_def)

text \<open>
  Whatever the allocation raises for a stored transaction, the endpoint's answer is the
  same: status 500 with the text of the generic status-400 failure. The numbers of the
  validation message are not in it.
\<close>

lemma create_split_endpoint_on_allocation_error:
  assumes "req_split_method request \<in> {''equal'', ''percentage'', ''ratio''}"
      and "object_id (req_transaction_id request) = Some oid"
      and "find_transaction d oid (req_user_id request) = Some t"
      and "snd (calculate_split_amounts ar (amount t) (req_participants request)
                  (req_split_method request)) = Some e"
  shows "create_split_endpoint ar (Some d) request
           = (Some d, HTTPException 500 (Server_error 400 Failed_to_create_split))"
proof -
  obtain ps where "calculate_split_amounts ar (amount t) (req_participants request)
                  (req_split_method request) = (ps, Some e)"
    using assms(4) by (cases "calculate_split_amounts ar (amount t) (req_participants request)
                  (req_split_method request)") simp
  with assms(1-3) show ?thesis
    by (auto simp: create_split_endpoint_def create_or_update_split_def)
qed

text \<open>
  Claim C4 at the example, in the exact arithmetic (49.5 + 50 and 99.5 - 100 are exact in
  binary floating point too). The allocation raises
  \<^verbatim>\<open>ValueError("Percentages must add up to 100, got 99.5")\<close>;
  \<open>create_or_update_split\<close> catches it and returns \<^verbatim>\<open>None\<close>; the endpoint raises
  status 400 "Failed to create split" inside its own \<^verbatim>\<open>try\<close>, catches that as an
  \<^verbatim>\<open>Exception\<close>, and answers status 500 "Server error: 400: Failed to create split".
  The claim has the caller told the offending sum.
\<close>

theorem validation_failure_reported_as_generic_failure:
  "calculate_split_amounts exact_arith 100 short_percentages ''percentage''
     = (short_percentages, Some (ValueError (Percentages_must_add_up (199 / 2)))) \<and>
   create_or_update_split exact_arith example_db ''u1'' ''64b7f0c2a1d3e4f5a6b7c8d9''
       short_percentages ''percentage'' None = (example_db, None) \<and>
   create_split_endpoint exact_arith example_db short_percentages_request
     = (example_db, HTTPException 500 (Server_error 400 Failed_to_create_split))"
  by (simp add: short_percentages_validation object_id_example create_split_endpoint_def
      create_or_update_split_def example_db_def short_percentages_request_def
      find_transaction_def)

section \<open>Claims about categorisation\<close>

lemma starts_with_iff: "starts_with k s \<longleftrightarrow> (\<exists>post. s = k @ post)"
  by (induction k s rule: starts_with.induct) auto

lemma py_in_iff: "py_in k s \<longleftrightarrow> (\<exists>pre post. s = pre @ k @ post)"
proof (induction s)
  case Nil
  show ?case by auto
next
  case (Cons c cs)
  show ?case
  proof
    assume "py_in k (c # cs)"
    then consider "starts_with k (c # cs)" | "py_in k cs" by auto
    then show "\<exists>pre post. c # cs = pre @ k @ post"
    proof cases
      case 1
      then obtain post where "c # cs = k @ post" by (auto simp: starts_with_iff)
      then have "c # cs = [] @ k @ post" by simp
      then show ?thesis by blast
    next
      case 2
      with Cons obtain pre post where "cs = pre @ k @ post" by blast
      then have "c # cs = (c # pre) @ k @ post" by simp
      then show ?thesis by blast
    qed
  next
    assume "\<exists>pre post. c # cs = pre @ k @ post"
    then obtain pre post where e: "c # cs = pre @ k @ post" by blast
    show "py_in k (c # cs)"
    proof (cases pre)
      case Nil
      with e have "starts_with k (c # cs)" by (auto simp: starts_with_iff)
      then show ?thesis by simp
    next
      case (Cons a pre')
      with e have "cs = pre' @ k @ post" by simp
      with Cons.IH show ?thesis by auto
    qed
  qed
qed

lemmas keyword_lists =
  food_and_drinks_keywords_def groceries_keywords_def shopping_keywords_def
  entertainment_keywords_def travel_and_transport_keywords_def
  bills_and_utilities_keywords_def healthcare_keywords_def education_keywords_def
  investments_keywords_def personal_care_keywords_def subscriptions_keywords_def

lemma fallback_apollo:
  "str_lower sl ''Apollo Pharmacy'' = ''apollo pharmacy'' \<Longrightarrow>
     categorize_merchant_fallback sl ''Apollo Pharmacy'' = ''Healthcare''"
  by (simp add: categorize_merchant_fallback_def any_keyword_in_def keyword_lists)

lemma fallback_unknown:
  "str_lower sl ''Unknown Merchant XYZ'' = ''unknown merchant xyz'' \<Longrightarrow>
     categorize_merchant_fallback sl ''Unknown Merchant XYZ'' = ''Others''"
  by (simp add: categorize_merchant_fallback_def any_keyword_in_def keyword_lists)

lemma ascii_lower_examples:
  "str_lower ascii_strlib ''Apollo Pharmacy'' = ''apollo pharmacy''"
  "str_lower ascii_strlib ''Unknown Merchant XYZ'' = ''unknown merchant xyz''"
  by (simp_all add: ascii_strlib_def ascii_lower_def lower_char_def)

text \<open>
  Claim C9, for every lower-casing function. For every merchant name the fallback
  returns the first category, in the order Food and Drinks, Groceries, Shopping,
  Entertainment, Travel and Transport, Bills and Utilities, Healthcare, Education,
  Investments, Personal Care, Subscriptions, whose keyword list has a keyword that is a
  substring of the lower-cased name (\<open>py_in\<close> is the substring test, lemma
  \<open>py_in_iff\<close>), and "Others" when there is none. Where lower-casing
  "Apollo Pharmacy" gives "apollo pharmacy" the fallback gives "Healthcare", and where
  lower-casing "Unknown Merchant XYZ" gives "unknown merchant xyz" it gives "Others".
\<close>

theorem fallback_first_matching_category:
  "categorize_merchant_fallback sl merchant_name
     = first_matching_category fallback_priority (str_lower sl merchant_name) \<and>
   map fst fallback_priority =
     [''Food and Drinks'', ''Groceries'', ''Shopping'', ''Entertainment'',
      ''Travel and Transport'', ''Bills and Utilities'', ''Healthcare'', ''Education'',
      ''Investments'', ''Personal Care'', ''Subscriptions''] \<and>
   (str_lower sl ''Apollo Pharmacy'' = ''apollo pharmacy'' \<longrightarrow>
      categorize_merchant_fallback sl ''Apollo Pharmacy'' = ''Healthcare'') \<and>
   (str_lower sl ''Unknown Merchant XYZ'' = ''unknown merchant xyz'' \<longrightarrow>
      categorize_merchant_fallback sl ''Unknown Merchant XYZ'' = ''Others'')"
proof -
  have "categorize_merchant_fallback sl merchant_name
     = first_matching_category fallback_priority (str_lower sl merchant_name)"
    by (simp add: categorize_merchant_fallback_def fallback_priority_def any_keyword_in_def
        Let_def)
  moreover have "map fst fallback_priority =
     [''Food and Drinks'', ''Groceries'', ''Shopping'', ''Entertainment'',
      ''Travel and Transport'', ''Bills and Utilities'', ''Healthcare'', ''Education'',
      ''Investments'', ''Personal Care'', ''Subscriptions'']"
    by (simp add: fallback_priority_def)
  ultimately show ?thesis using fallback_apollo fallback_unknown by blast
qed

text \<open>The theorem at the lower-casing of ASCII strings, which maps both names so.\<close>

theorem fallback_first_matching_category_witness:
  "str_lower ascii_strlib ''Apollo Pharmacy'' = ''apollo pharmacy'' \<and>
   categorize_merchant_fallback ascii_strlib ''Apollo Pharmacy'' = ''Healthcare'' \<and>
   str_lower ascii_strlib ''Unknown Merchant XYZ'' = ''unknown merchant xyz'' \<and>
   categorize_merchant_fallback ascii_strlib ''Unknown Merchant XYZ'' = ''Others'' \<and>
   first_matching_category fallback_priority ''apollo pharmacy'' = ''Healthcare''"
proof -
  note t = fallback_first_matching_category [of ascii_strlib "''Apollo Pharmacy''"]
  note l = ascii_lower_examples
  from t have a: "categorize_merchant_fallback ascii_strlib ''Apollo Pharmacy''
     = first_matching_category fallback_priority (str_lower ascii_strlib ''Apollo Pharmacy'')"
    by blast
  from t l have b: "categorize_merchant_fallback ascii_strlib ''Apollo Pharmacy'' = ''Healthcare''"
    "categorize_merchant_fallback ascii_strlib ''Unknown Merchant XYZ'' = ''Others''"
    by blast+
  have "first_matching_category fallback_priority ''apollo pharmacy''
          = first_matching_category fallback_priority
              (str_lower ascii_strlib ''Apollo Pharmacy'')"
    by (simp only: l)
  also have "\<dots> = categorize_merchant_fallback ascii_strlib ''Apollo Pharmacy''"
    by (rule a [symmetric])
  also have "\<dots> = ''Healthcare''" by (rule b(1))
  finally have c: "first_matching_category fallback_priority ''apollo pharmacy''
                     = ''Healthcare''" .
  from l b c show ?thesis by blast
qed

text \<open>
  What the validation of a remote answer does, for a configured key and a call that
  returns: an answer that is a category as it stands is returned; otherwise the first
  category that contains the answer, or is contained in it, ignoring case; otherwise the
  fallback.
\<close>

lemma categorize_merchant_validation:
  assumes "api_key = Some k" and "k \<noteq> []"
      and "remote (categorize_prompt merchant_name) = Some text"
  shows "categorize_merchant sl api_key remote merchant_name =
          (if str_strip sl text \<in> set get_valid_categories then str_strip sl text
           else case find (\<lambda>valid_cat.
                    py_in (str_lower sl valid_cat) (str_lower sl (str_strip sl text)) \<or>
                    py_in (str_lower sl (str_strip sl text)) (str_lower sl valid_cat))
                  get_valid_categories of
                  Some valid_cat \<Rightarrow> valid_cat
                | None \<Rightarrow> categorize_merchant_fallback sl merchant_name)"
  using assms by (simp add: categorize_merchant_def Let_def)

text \<open>
  An answer that is empty once stripped is contained in every category (the empty string
  is a substring of any string), so the first category of the list is returned, whoever
  the merchant is.
\<close>

lemma empty_answer_is_food_and_drinks:
  assumes "k \<noteq> []" and "str_strip sl text = []" and "str_lower sl [] = []"
  shows "categorize_merchant sl (Some k) (answers text) merchant_name = ''Food and Drinks''"
proof -
  have "py_in [] s" for s by (cases s) simp_all
  then show ?thesis
    using assms by (simp add: categorize_merchant_def answers_def get_valid_categories_def)
qed

text \<open>
  Claim C8 at an empty answer. With a key configured and the remote call returning the
  empty text for "Apollo Pharmacy", the result is "Food and Drinks"; the keyword
  fallback on that name gives "Healthcare". The claim has the result be the fallback's.
  The strings are ASCII, and so are the two library functions.
\<close>

theorem empty_answer_bypasses_fallback:
  "categorize_merchant ascii_strlib (Some ''key'') (answers '''') ''Apollo Pharmacy''
     = ''Food and Drinks'' \<and>
   categorize_merchant_fallback ascii_strlib ''Apollo Pharmacy'' = ''Healthcare''"
proof -
  have "categorize_merchant ascii_strlib (Some ''key'') (answers '''') ''Apollo Pharmacy''
          = ''Food and Drinks''"
    by (rule empty_answer_is_food_and_drinks)
      (simp_all add: ascii_strlib_def ascii_strip_def ascii_lower_def)
  with fallback_apollo [OF ascii_lower_examples(1)] show ?thesis by simp
qed

section \<open>Claims about extraction\<close>










text \<open>The dates: the first pattern that matches decides.\<close>

lemma date_loop_first:
  "re_groups3 L p text = Some (g0, g1, g2) \<Longrightarrow>
     date_loop L (p # rest) text =
       (if str_isdigit L g0 \<and> str_len L g0 = 4
          then Some (g0 @ ''-'' @ str_zfill2 L g1 @ ''-'' @ str_zfill2 L g2)
        else if str_isdigit L g1
          then Some (g2 @ ''-'' @ str_zfill2 L g1 @ ''-'' @ str_zfill2 L g0)
        else Some (g2 @ ''-'' @ month_number L g1 @ ''-'' @ str_zfill2 L g0))"
  by simp

lemma date_loop_next:
  "re_groups3 L p text = None \<Longrightarrow> date_loop L (p # rest) text = date_loop L rest text"
  by simp






























end
